theory Spec2Isabelle
  imports Complex_Main
begin

section \<open>JSON values as the frontend receives them\<close>

text \<open>
  The QualityControl page reads its backend's answers with \<^verbatim>\<open>response.json()\<close> and
  types them \<^verbatim>\<open>any\<close>. A JSON value is one of the following; an object is its list of
  members.
\<close>

datatype json =
    JNull
  | JBool bool
  | JNum real
  | JStr string
  | JArr "json list"
  | JObj "(string \<times> json) list"

text \<open>
  JavaScript's truthiness on a JSON value: \<^verbatim>\<open>null\<close>, \<^verbatim>\<open>false\<close>, \<^verbatim>\<open>0\<close> and the empty
  string are falsy, every array and object is truthy.
\<close>

fun truthy :: "json \<Rightarrow> bool" where
  "truthy JNull = False"
| "truthy (JBool b) = b"
| "truthy (JNum n) = (n \<noteq> 0)"
| "truthy (JStr s) = (s \<noteq> [])"
| "truthy (JArr xs) = True"
| "truthy (JObj ms) = True"

section \<open>The chart formatter of fetchChartData\<close>

text \<open>
  \<^verbatim>\<open>fetchChartData\<close> reads the \<^verbatim>\<open>/state/series\<close> answer with \<^verbatim>\<open>response.json()\<close> and maps a
  callback over it, inside a \<^verbatim>\<open>try\<close> whose \<^verbatim>\<open>catch\<close> only logs:
  \<^verbatim>\<open>
  const formattedData = data.map((d: any) => {
    if (!d.timestamp) return { ...d, timestamp: "Unknown Time" };
    const date = new Date(d.timestamp);
    return { ...d, timestamp: !isNaN(date.getTime())
               ? date.toLocaleTimeString('en-US', {...}) : "Invalid Time" };
  });
  setQcData(formattedData);
  \<close>
  An element \<open>d\<close> is any JSON value. The object the callback returns is a map from member
  names to JSON values, where a name that is not a member reads as \<^verbatim>\<open>undefined\<close> (\<open>None\<close>).
  The only exception the callback's own steps raise is a \<^verbatim>\<open>TypeError\<close>.
\<close>

type_synonym sample = "string \<rightharpoonup> json"

datatype js_error = TypeError

text \<open>The name of an array index: its decimal numeral.\<close>

function decimal :: "nat \<Rightarrow> string" where
  "decimal n =
     (if n < 10 then [''0123456789'' ! n]
      else decimal (n div 10) @ [''0123456789'' ! (n mod 10)])"
  by pat_completeness auto
termination
  by (relation "measure id") auto

text \<open>The elements of an array (or the characters of a string) under their indices.\<close>

definition indexed :: "json list \<Rightarrow> sample" where
  "indexed xs = map_of (zip (map decimal [0..<length xs]) xs)"

text \<open>
  \<^verbatim>\<open>{ ...d }\<close>: the own enumerable members the spread copies. Of an object these are its
  members, the last one winning where the JSON text repeats a name; of an array its
  elements under their indices; of a string its characters under their indices (a string
  is read as its sequence of code units, one \<open>char\<close> each); a number, a boolean and
  \<^verbatim>\<open>null\<close> have none.
\<close>

fun ownMembers :: "json \<Rightarrow> sample" where
  "ownMembers (JObj ms) = map_of (rev ms)"
| "ownMembers (JArr xs) = indexed xs"
| "ownMembers (JStr s) = indexed (map (\<lambda>c. JStr [c]) s)"
| "ownMembers v = Map.empty"

text \<open>
  \<^verbatim>\<open>d.timestamp\<close>: reading a member of \<^verbatim>\<open>null\<close> throws a \<^verbatim>\<open>TypeError\<close>; an object answers
  with its member or \<^verbatim>\<open>undefined\<close>; every other value answers \<^verbatim>\<open>undefined\<close>.
\<close>

fun timestampOf :: "json \<Rightarrow> js_error + json option" where
  "timestampOf JNull = Inl TypeError"
| "timestampOf (JObj ms) = Inr (map_of (rev ms) ''timestamp'')"
| "timestampOf v = Inr None"

text \<open>
  The callback. The \<^verbatim>\<open>Date\<close> object belongs to the JavaScript runtime, not to the
  repository, so it is taken as two parameters: \<open>newDate v\<close> is
  \<^verbatim>\<open>new Date(v).getTime()\<close>, which throws (\<open>Inl\<close>), is \<^verbatim>\<open>NaN\<close> (\<open>Inr None\<close>) or is a time
  value, and \<open>toLocaleTimeString t\<close> is the formatted local time of the time value \<open>t\<close>.
\<close>

definition formatSample ::
  "(json \<Rightarrow> js_error + int option) \<Rightarrow> (int \<Rightarrow> string) \<Rightarrow> json \<Rightarrow> js_error + sample" where
  "formatSample newDate toLocaleTimeString d =
     (case timestampOf d of
        Inl e \<Rightarrow> Inl e
      | Inr None \<Rightarrow> Inr ((ownMembers d)(''timestamp'' \<mapsto> JStr ''Unknown Time''))
      | Inr (Some v) \<Rightarrow>
          if \<not> truthy v then Inr ((ownMembers d)(''timestamp'' \<mapsto> JStr ''Unknown Time''))
          else (case newDate v of
                  Inl e \<Rightarrow> Inl e
                | Inr (Some t) \<Rightarrow>
                    Inr ((ownMembers d)(''timestamp'' \<mapsto> JStr (toLocaleTimeString t)))
                | Inr None \<Rightarrow> Inr ((ownMembers d)(''timestamp'' \<mapsto> JStr ''Invalid Time''))))"

text \<open>\<^verbatim>\<open>data.map\<close> over the elements, in order: the first callback that throws ends it.\<close>

fun formattedData ::
  "(json \<Rightarrow> js_error + int option) \<Rightarrow> (int \<Rightarrow> string) \<Rightarrow> json list \<Rightarrow> js_error + sample list" where
  "formattedData newDate toLocaleTimeString [] = Inr []"
| "formattedData newDate toLocaleTimeString (d # ds) =
     (case formatSample newDate toLocaleTimeString d of
        Inl e \<Rightarrow> Inl e
      | Inr r \<Rightarrow>
          (case formattedData newDate toLocaleTimeString ds of
             Inl e \<Rightarrow> Inl e
           | Inr rs \<Rightarrow> Inr (r # rs)))"

text \<open>
  What \<^verbatim>\<open>fetch\<close> and \<^verbatim>\<open>response.json()\<close> give: a rejection (no answer, or a body that
  is not JSON), an answer that is not ok, or an ok answer with its JSON value.
\<close>

datatype response = Rejected | NotOk | OkJson json

text \<open>
  \<^verbatim>\<open>fetchChartData\<close>: on an ok answer that is an array and whose callbacks all return,
  \<^verbatim>\<open>qcData\<close> becomes the formatted elements in their order. In every other case
  \<^verbatim>\<open>qcData\<close> stays as it is: the answer is not ok, the request is rejected, the value is
  no array (\<^verbatim>\<open>data.map\<close> is then no function), or a callback throws and \<^verbatim>\<open>catch\<close> drops
  the whole answer.
\<close>

definition fetchChartData ::
  "(json \<Rightarrow> js_error + int option) \<Rightarrow> (int \<Rightarrow> string) \<Rightarrow> response \<Rightarrow> sample list \<Rightarrow> sample list" where
  "fetchChartData newDate toLocaleTimeString response qcData =
     (case response of
        OkJson (JArr ds) \<Rightarrow>
          (case formattedData newDate toLocaleTimeString ds of
             Inr rs \<Rightarrow> rs
           | Inl e \<Rightarrow> qcData)
      | _ \<Rightarrow> qcData)"

text \<open>
  A stand-in for the runtime's \<^verbatim>\<open>Date\<close>, for the concrete elements below only: one ISO
  time stamp is a date, every other string is none (as the empty string and the text
  \<^verbatim>\<open>"soon"\<close> are none), and an object with an own member \<^verbatim>\<open>toString\<close> makes
  \<^verbatim>\<open>new Date\<close> throw, since no JSON value can be called to convert it. The format is
  that of a runtime whose local time is UTC.
\<close>

fun sampleDate :: "json \<Rightarrow> js_error + int option" where
  "sampleDate (JStr s) =
     (if s = ''2024-05-01T12:34:56Z'' then Inr (Some 1714566896000) else Inr None)"
| "sampleDate (JObj ms) = (if ''toString'' \<in> fst ` set ms then Inl TypeError else Inr None)"
| "sampleDate v = Inr None"

definition sampleFormat :: "int \<Rightarrow> string" where
  "sampleFormat t = (if t = 1714566896000 then ''12:34:56'' else ''00:00:00'')"

text \<open>Elements of an answer, and an earlier \<^verbatim>\<open>qcData\<close>, for the concrete cases below.\<close>

definition noTimestamp :: json where
  "noTimestamp = JObj [(''LSF_est'', JNum 1)]"

definition badTimestamp :: json where
  "badTimestamp = JObj [(''timestamp'', JStr ''soon'')]"

definition goodTimestamp :: json where
  "goodTimestamp = JObj [(''LSF_est'', JNum 1), (''timestamp'', JStr ''2024-05-01T12:34:56Z'')]"

definition throwingTimestamp :: json where
  "throwingTimestamp = JObj [(''timestamp'', JObj [(''toString'', JNum 1)])]"

definition emptyTimestamp :: json where
  "emptyTimestamp = JObj [(''timestamp'', JStr '''')]"

definition oldData :: "sample list" where
  "oldData = [[''timestamp'' \<mapsto> JStr ''12:00:00'']]"

section \<open>The plan workflow of the QualityControl page\<close>

subsection \<open>Interfaces and component state\<close>

text \<open>
  The interfaces \<^verbatim>\<open>Plan\<close> and \<^verbatim>\<open>SimulationResult\<close> of the page (the optional member
  \<^verbatim>\<open>notes\<close> is \<open>plan_notes\<close> here).
\<close>

record Action =
  knob :: string
  delta_pct :: real
  reason :: string

record Plan =
  issue :: string
  kpi_impact :: json
  actions :: "Action list"
  plan_notes :: "string option"

record SimulatedAfter =
  LSF_est :: real
  Blaine_est :: real
  fCaO_est :: real

record SimulationResult =
  simulated_after :: SimulatedAfter

text \<open>
  \<^verbatim>\<open>isLoading\<close> is \<^verbatim>\<open>false\<close> or the name of the handler that set it: \<^verbatim>\<open>"propose"\<close>,
  \<^verbatim>\<open>"simulate"\<close>, \<^verbatim>\<open>"apply"\<close>, \<^verbatim>\<open>"disturb"\<close>. A button written
  \<^verbatim>\<open>disabled={!!isLoading}\<close> is disabled for each of the four names.
\<close>

datatype loading = NotLoading | LoadingPropose | LoadingSimulate | LoadingApply | LoadingDisturb

text \<open>
  The requests the page's handlers send to the backend on port 8002:
  \<^verbatim>\<open>POST /plan/propose?force=...\<close>, \<^verbatim>\<open>POST /plan/simulate\<close> and \<^verbatim>\<open>POST /plan/apply\<close> with a
  Plan as body, \<^verbatim>\<open>POST /disturb\<close> with type, magnitude and \<^verbatim>\<open>duration_s\<close>.
\<close>

datatype request =
    PlanPropose bool
  | PlanSimulate Plan
  | PlanApply Plan
  | Disturb string real nat

text \<open>
  The component's state (\<^verbatim>\<open>useState\<close>), together with what surrounds it: whether the
  confirmation dialog is open (the state of the \<^verbatim>\<open>Dialog\<close> component), the requests
  awaiting their answer, the number of \<^verbatim>\<open>setTimeout\<close> callbacks still to run, and two
  records kept for the statements below: every request sent so far, oldest first, and
  the Plans for which a simulate request was answered with a SimulationResult.
\<close>

record world =
  proposedPlan :: "Plan option"
  simulationResults :: "SimulationResult option"
  isLoading :: loading
  disturbanceValue :: string
  disturbanceMagnitude :: real
  dialogOpen :: bool
  inflight :: "request list"
  timers :: nat
  sentLog :: "request list"
  simulatedLog :: "Plan list"

definition initial :: world where
  "initial = \<lparr>proposedPlan = None, simulationResults = None, isLoading = NotLoading,
     disturbanceValue = ''SiO2_in_high'', disturbanceMagnitude = 5, dialogOpen = False,
     inflight = [], timers = 0, sentLog = [], simulatedLog = []\<rparr>"

subsection \<open>Events and handlers\<close>

text \<open>
  What can happen to the page: the operator presses a button or edits an input, the dialog
  is dismissed, a request is answered (or fails), a timer runs out.
  \<^item> \<open>ClickApply\<close> is the button "Apply Plan to Plant", the \<^verbatim>\<open>DialogTrigger\<close>;
  \<^item> \<open>ClickConfirm\<close> is the button "Apply Plan" inside the dialog, whose \<^verbatim>\<open>onClick\<close> is
    \<^verbatim>\<open>applyPlan\<close>;
  \<^item> \<open>CloseDialog\<close> is the dialog being dismissed (the dialog's "Cancel" button has no
    handler);
  \<^item> \<open>ProposeDone\<close>, \<open>SimulateDone\<close>, \<open>ApplyDone\<close>, \<open>DisturbDone\<close> are the ends of the
    four requests: with a Plan, a SimulationResult or \<open>True\<close> when \<^verbatim>\<open>response.ok\<close>,
    with \<open>None\<close> or \<open>False\<close> when the handler's \<^verbatim>\<open>catch\<close> runs;
  \<^item> \<open>ClearTimer\<close> is the callback \<^verbatim>\<open>applyPlan\<close> schedules after a successful apply.
\<close>

datatype event =
    ClickPropose
  | ClickSimulate
  | ClickApply
  | ClickConfirm
  | CloseDialog
  | ClickInject
  | SetDisturbanceValue string
  | SetDisturbanceMagnitude real
  | ProposeDone "Plan option"
  | SimulateDone Plan "SimulationResult option"
  | ApplyDone Plan bool
  | DisturbDone string real bool
  | ClearTimer

definition busy :: "world \<Rightarrow> bool" where
  "busy w = (isLoading w \<noteq> NotLoading)"

definition send :: "request \<Rightarrow> world \<Rightarrow> world" where
  "send r w = w\<lparr>inflight := inflight w @ [r], sentLog := sentLog w @ [r]\<rparr>"

text \<open>
  \<^verbatim>\<open>proposePlan\<close>, up to its \<^verbatim>\<open>await fetch\<close>: sets \<^verbatim>\<open>isLoading\<close>, resets the stored Plan
  and SimulationResult, sends \<^verbatim>\<open>POST /plan/propose?force=true\<close>.
\<close>

definition proposePlan :: "world \<Rightarrow> world" where
  "proposePlan w =
     send (PlanPropose True)
       (w\<lparr>isLoading := LoadingPropose, proposedPlan := None, simulationResults := None\<rparr>)"

text \<open>\<^verbatim>\<open>simulatePlan\<close>, up to its \<^verbatim>\<open>await fetch\<close>: returns at once without a stored Plan.\<close>

definition simulatePlan :: "world \<Rightarrow> world" where
  "simulatePlan w =
     (case proposedPlan w of
        None \<Rightarrow> w
      | Some p \<Rightarrow> send (PlanSimulate p) (w\<lparr>isLoading := LoadingSimulate\<rparr>))"

text \<open>\<^verbatim>\<open>applyPlan\<close>, up to its \<^verbatim>\<open>await fetch\<close>: returns at once without a stored Plan.\<close>

definition applyPlan :: "world \<Rightarrow> world" where
  "applyPlan w =
     (case proposedPlan w of
        None \<Rightarrow> w
      | Some p \<Rightarrow> send (PlanApply p) (w\<lparr>isLoading := LoadingApply\<rparr>))"

text \<open>\<^verbatim>\<open>injectDisturbance\<close>, up to its \<^verbatim>\<open>await fetch\<close>.\<close>

definition injectDisturbance :: "world \<Rightarrow> world" where
  "injectDisturbance w =
     send (Disturb (disturbanceValue w) (disturbanceMagnitude w) 60)
       (w\<lparr>isLoading := LoadingDisturb\<rparr>)"

text \<open>
  One event. A press on a disabled button and the answer to a request that is not in
  flight change nothing. The buttons' \<^verbatim>\<open>disabled\<close> attributes are those of the page:
  Propose and Inject \<^verbatim>\<open>!!isLoading\<close>, Simulate \<^verbatim>\<open>!!isLoading || !proposedPlan\<close>, the dialog
  trigger \<^verbatim>\<open>!!isLoading || !simulationResults\<close>; the dialog's "Apply Plan" button has none
  and can be pressed whenever the dialog is open. The page's buttons are not blocked here
  while the dialog is open, so every run of the page is a run of this model.
  After the \<^verbatim>\<open>await\<close>, each handler stores its answer and its \<^verbatim>\<open>finally\<close> sets
  \<^verbatim>\<open>isLoading\<close> to \<^verbatim>\<open>false\<close>.
\<close>

fun step :: "event \<Rightarrow> world \<Rightarrow> world" where
  "step ClickPropose w = (if busy w then w else proposePlan w)"
| "step ClickSimulate w = (if busy w \<or> proposedPlan w = None then w else simulatePlan w)"
| "step ClickApply w =
     (if busy w \<or> simulationResults w = None then w else w\<lparr>dialogOpen := True\<rparr>)"
| "step ClickConfirm w = (if dialogOpen w then applyPlan w else w)"
| "step CloseDialog w = w\<lparr>dialogOpen := False\<rparr>"
| "step ClickInject w = (if busy w then w else injectDisturbance w)"
| "step (SetDisturbanceValue v) w = w\<lparr>disturbanceValue := v\<rparr>"
| "step (SetDisturbanceMagnitude m) w = w\<lparr>disturbanceMagnitude := m\<rparr>"
| "step (ProposeDone answer) w =
     (if PlanPropose True \<notin> set (inflight w) then w
      else let w' = w\<lparr>inflight := remove1 (PlanPropose True) (inflight w)\<rparr> in
        (case answer of
           Some p \<Rightarrow> w'\<lparr>proposedPlan := Some p, isLoading := NotLoading\<rparr>
         | None \<Rightarrow> w'\<lparr>isLoading := NotLoading\<rparr>))"
| "step (SimulateDone p answer) w =
     (if PlanSimulate p \<notin> set (inflight w) then w
      else let w' = w\<lparr>inflight := remove1 (PlanSimulate p) (inflight w)\<rparr> in
        (case answer of
           Some r \<Rightarrow> w'\<lparr>simulationResults := Some r, isLoading := NotLoading,
                        simulatedLog := simulatedLog w @ [p]\<rparr>
         | None \<Rightarrow> w'\<lparr>isLoading := NotLoading\<rparr>))"
| "step (ApplyDone p ok) w =
     (if PlanApply p \<notin> set (inflight w) then w
      else let w' = w\<lparr>inflight := remove1 (PlanApply p) (inflight w)\<rparr> in
        (if ok then w'\<lparr>timers := Suc (timers w), isLoading := NotLoading\<rparr>
         else w'\<lparr>isLoading := NotLoading\<rparr>))"
| "step (DisturbDone v m ok) w =
     (if Disturb v m 60 \<notin> set (inflight w) then w
      else w\<lparr>inflight := remove1 (Disturb v m 60) (inflight w), isLoading := NotLoading\<rparr>)"
| "step ClearTimer w =
     (if timers w = 0 then w
      else w\<lparr>timers := timers w - 1, proposedPlan := None, simulationResults := None\<rparr>)"

text \<open>A run: the events in the order they happen.\<close>

fun run :: "event list \<Rightarrow> world \<Rightarrow> world" where
  "run [] w = w"
| "run (e # es) w = run es (step e w)"

text \<open>The requests an event sends: what the step adds to the record of sent requests.\<close>

definition sends :: "event \<Rightarrow> world \<Rightarrow> request list" where
  "sends e w = drop (length (sentLog w)) (sentLog (step e w))"



text \<open>Two Plans and a SimulationResult for the concrete runs below.\<close>

definition demoPlan :: Plan where
  "demoPlan = \<lparr>issue = ''LSF_est above its rolling mean'', kpi_impact = JNull,
     actions = [\<lparr>knob = ''limestone_pct'', delta_pct = - 1, reason = ''lower LSF''\<rparr>],
     plan_notes = None\<rparr>"

definition otherPlan :: Plan where
  "otherPlan = \<lparr>issue = ''Blaine_est low'', kpi_impact = JNull,
     actions = [\<lparr>knob = ''separator_speed'', delta_pct = 2, reason = ''raise fineness''\<rparr>],
     plan_notes = Some ''second proposal''\<rparr>"

definition demoResult :: SimulationResult where
  "demoResult = \<lparr>simulated_after = \<lparr>LSF_est = 95 / 100, Blaine_est = 3900, fCaO_est = 1\<rparr>\<rparr>"

text \<open>
  The run up to a held SimulationResult: propose, the Plan arrives, simulate, the
  SimulationResult arrives.
\<close>

definition simulatedRun :: "event list" where
  "simulatedRun =
     [ClickPropose, ProposeDone (Some demoPlan), ClickSimulate,
      SimulateDone demoPlan (Some demoResult)]"

section \<open>The backend behind the page\<close>

text \<open>
  The page talks to the quality-control backend (\<^verbatim>\<open>qc_backend\<close>: \<^verbatim>\<open>app.py\<close>, \<^verbatim>\<open>qc/safety.py\<close>),
  of which the repository's sources hold the README only. The two operations the
  properties below need are written from the specification, sections 3, 4.4, 4.7 and 6.
  Numbers are real numbers here, where the backend computes in floating point.
\<close>

subsection \<open>Safety Clamp\<close>

text \<open>
  Modelled from the spec: the constraints the Safety Clamp checks against (the code of
  \<^verbatim>\<open>clamp_actions\<close> in \<^verbatim>\<open>qc/safety.py\<close> is missing). Per knob, "the configured maximum
  per-step change" (in percent, as the delta is) and "its configured absolute operating
  range". A knob without an entry is an "unknown knob identifier". ControlState is
  "current knob settings".
\<close>

record knob_limits =
  max_step :: real
  range_min :: real
  range_max :: real

type_synonym constraints = "string \<rightharpoonup> knob_limits"

type_synonym control_state = "string \<rightharpoonup> real"

text \<open>
  Modelled from the spec: the knob value an Action projects (missing with
  \<^verbatim>\<open>qc/safety.py\<close>). The delta is a "percentage of current setting".
\<close>

definition projected :: "real \<Rightarrow> real \<Rightarrow> real" where
  "projected cur d = cur * (1 + d / 100)"

text \<open>
  Modelled from the spec: what the clamp does with one Action (missing with
  \<^verbatim>\<open>qc/safety.py\<close>): it is kept, kept and annotated as clamped, or dropped and recorded as
  rejected.
\<close>

datatype verdict = Kept Action | Clamped Action | Rejected Action

text \<open>
  Modelled from the spec: "if \<open>|delta_pct|\<close> exceeds the configured maximum per-step
  change for that knob, clamp to the signed maximum" (missing with \<^verbatim>\<open>qc/safety.py\<close>).
\<close>

definition step_clamped :: "knob_limits \<Rightarrow> real \<Rightarrow> real" where
  "step_clamped kl d =
     (if \<bar>d\<bar> > max_step kl then (if d < 0 then - max_step kl else max_step kl) else d)"

text \<open>
  Modelled from the spec: "the nearer boundary" of the operating range, seen from a
  projected value (missing with \<^verbatim>\<open>qc/safety.py\<close>).
\<close>

definition nearer_boundary :: "knob_limits \<Rightarrow> real \<Rightarrow> real" where
  "nearer_boundary kl v =
     (if \<bar>v - range_min kl\<bar> \<le> \<bar>v - range_max kl\<bar> then range_min kl else range_max kl)"

text \<open>
  Modelled from the spec: the Safety Clamp on one Action (\<^verbatim>\<open>clamp_actions\<close> of
  \<^verbatim>\<open>qc/safety.py\<close>, missing), section 4.4: "For every Action: if \<open>|delta_pct|\<close> exceeds the
  configured maximum per-step change for that knob, clamp to the signed maximum; if the
  resulting projected knob value would exit its configured absolute operating range,
  clamp to the nearer boundary instead and annotate the Action as clamped. Drops (does
  not error on) unknown knob identifiers, recording them as rejected".
  The contract is written \<^verbatim>\<open>clamp(plan, constraints)\<close>; the projected value needs the
  knob's current setting, so the ControlState is an argument here, and a knob without a
  current setting is unknown as well. Clamping to a boundary \<open>b\<close> makes the delta the
  percentage that projects to \<open>b\<close>; from a current setting of \<open>0\<close> no percentage moves the
  knob, and the delta becomes \<open>0\<close>.
\<close>

definition clamp_action :: "constraints \<Rightarrow> control_state \<Rightarrow> Action \<Rightarrow> verdict" where
  "clamp_action cs ctl a =
     (case cs (knob a) of
        None \<Rightarrow> Rejected a
      | Some kl \<Rightarrow>
          (case ctl (knob a) of
             None \<Rightarrow> Rejected a
           | Some cur \<Rightarrow>
               let d = step_clamped kl (delta_pct a); v = projected cur d in
               if range_min kl \<le> v \<and> v \<le> range_max kl then Kept (a\<lparr>delta_pct := d\<rparr>)
               else if cur = 0 then Clamped (a\<lparr>delta_pct := 0\<rparr>)
               else Clamped (a\<lparr>delta_pct := (nearer_boundary kl v - cur) / cur * 100\<rparr>)))"

text \<open>
  Modelled from the spec: the Actions of the output Plan, in their order (missing with
  \<^verbatim>\<open>qc/safety.py\<close>): the rejected ones are dropped, "rather than failing the whole Plan".
\<close>

fun surviving :: "verdict list \<Rightarrow> Action list" where
  "surviving [] = []"
| "surviving (Kept a # vs) = a # surviving vs"
| "surviving (Clamped a # vs) = a # surviving vs"
| "surviving (Rejected a # vs) = surviving vs"

text \<open>
  Modelled from the spec: the Safety Clamp, \<^verbatim>\<open>clamp(plan, constraints) -> Plan\<close>
  (\<^verbatim>\<open>clamp_actions\<close> of \<^verbatim>\<open>qc/safety.py\<close>, missing).
\<close>

definition clamp :: "constraints \<Rightarrow> control_state \<Rightarrow> Plan \<Rightarrow> Plan" where
  "clamp cs ctl p = p\<lparr>actions := surviving (map (clamp_action cs ctl) (actions p))\<rparr>"

text \<open>Constraints, a ControlState and an over-eager Plan for the concrete case below.\<close>

definition demoLimits :: constraints where
  "demoLimits = [''limestone_pct'' \<mapsto> \<lparr>max_step = 5, range_min = 0, range_max = 100\<rparr>]"

definition inRange :: control_state where
  "inRange = [''limestone_pct'' \<mapsto> 80]"

definition wildPlan :: Plan where
  "wildPlan = \<lparr>issue = ''LSF_est low'', kpi_impact = JNull,
     actions = [\<lparr>knob = ''limestone_pct'', delta_pct = 400, reason = ''raise LSF''\<rparr>,
                \<lparr>knob = ''unknown_knob'', delta_pct = 1, reason = ''made up''\<rparr>],
     plan_notes = None\<rparr>"

subsection \<open>The propose endpoint\<close>

text \<open>
  Modelled from the spec: the states of the Workflow Orchestrator (\<^verbatim>\<open>app.py\<close>, missing),
  section 4.7: "Idle, IssueDetected, PlanProposed, PlanSimulated, Applied". The active
  Plan is the one of \<open>PlanProposed\<close> or \<open>PlanSimulated\<close>.
\<close>

datatype workflow = Idle | IssueDetected | PlanProposed Plan | PlanSimulated Plan | Applied

text \<open>
  Modelled from the spec: how a proposal fails (\<^verbatim>\<open>app.py\<close>, missing), sections 6 and 7:
  \<open>NoIssueDetected\<close>, or the oracle's failure once its retries are used up.
\<close>

datatype oracle_failure = OracleUnavailable | OracleMalformedOutput

datatype propose_failure = NoIssueDetected | OracleFailed oracle_failure

text \<open>
  Modelled from the spec: \<^verbatim>\<open>POST plan/propose(force: bool)\<close> (\<^verbatim>\<open>app.py\<close>, missing).
  Section 6: it "runs IssueDetected -> PlanProposed; without an active Issue and without
  force, fails with NoIssueDetected; returns the clamped Plan". Section 4.7: a force
  request "at any state discards the active Plan and returns to Idle, permitting a
  brand-new proposal"; the request "invokes Plan Oracle then Safety Clamp; failure keeps
  state" and "surfaces the error". The Plan Oracle is outside the system: its answer is
  an argument.
\<close>

definition plan_propose ::
  "bool \<Rightarrow> constraints \<Rightarrow> control_state \<Rightarrow> oracle_failure + Plan \<Rightarrow> workflow \<Rightarrow>
     (propose_failure + Plan) \<times> workflow" where
  "plan_propose force cs ctl oracle flow =
     (let flow0 = (if force then Idle else flow) in
      if \<not> force \<and> flow0 \<noteq> IssueDetected then (Inl NoIssueDetected, flow0)
      else (case oracle of
              Inl x \<Rightarrow> (Inl (OracleFailed x), flow0)
            | Inr p \<Rightarrow> (Inr (clamp cs ctl p), PlanProposed (clamp cs ctl p))))"

section \<open>Properties of the chart formatter\<close>

lemma formattedData_all:
  "list_all2 (\<lambda>x y. formatSample nd f x = Inr y) ds rs \<Longrightarrow> formattedData nd f ds = Inr rs"
  by (induction rule: list_all2_induct) auto

lemma formattedData_Inl:
  "d \<in> set ds \<Longrightarrow> formatSample nd f d = Inl TypeError \<Longrightarrow> formattedData nd f ds = Inl TypeError"
proof (induction ds)
  case Nil
  then show ?case by simp
next
  case (Cons x xs)
  then show ?case
    by (cases "x = d") (auto split: sum.splits intro: js_error.exhaust)
qed

lemma formatSample_other:
  "formatSample nd f d = Inr r \<Longrightarrow> k \<noteq> ''timestamp'' \<Longrightarrow> r k = ownMembers d k"
  by (auto simp: formatSample_def split: sum.splits option.splits if_splits)

lemma timestampOf_total: "d \<noteq> JNull \<Longrightarrow> \<exists>ts. timestampOf d = Inr ts"
  by (cases d) auto

text \<open>
  Claim C10, as the code has it. On an element \<open>d\<close> of the \<^verbatim>\<open>/state/series\<close> answer the
  formatter
  \<^item> throws when \<open>d\<close> is \<^verbatim>\<open>null\<close>, and reads a timestamp (or none) from every other \<open>d\<close>;
  \<^item> answers "Unknown Time" when \<open>d\<close> has no timestamp or a falsy one (\<^verbatim>\<open>null\<close>, \<^verbatim>\<open>false\<close>,
    \<^verbatim>\<open>0\<close>, the empty string);
  \<^item> answers "Invalid Time" when the timestamp is truthy and \<^verbatim>\<open>new Date\<close> makes no date
    of it;
  \<^item> answers the formatted local time when the timestamp is truthy and a date;
  \<^item> throws when the timestamp is truthy and \<^verbatim>\<open>new Date\<close> throws on it;

  whenever it answers, the other members are those of \<open>d\<close>; an ok answer whose elements
  are all formatted replaces \<^verbatim>\<open>qcData\<close> by the formatted elements, in order, and one with
  an element on which the formatter throws leaves \<^verbatim>\<open>qcData\<close> as it was.
\<close>

theorem formatSample_cases:
  "(d = JNull \<longrightarrow> formatSample nd f d = Inl TypeError) \<and>
   (d \<noteq> JNull \<longrightarrow> (\<exists>ts. timestampOf d = Inr ts)) \<and>
   (timestampOf d = Inr None \<or> (\<exists>u. timestampOf d = Inr (Some u) \<and> \<not> truthy u) \<longrightarrow>
      formatSample nd f d = Inr ((ownMembers d)(''timestamp'' \<mapsto> JStr ''Unknown Time''))) \<and>
   (timestampOf d = Inr (Some v) \<and> truthy v \<and> nd v = Inr None \<longrightarrow>
      formatSample nd f d = Inr ((ownMembers d)(''timestamp'' \<mapsto> JStr ''Invalid Time''))) \<and>
   (timestampOf d = Inr (Some v) \<and> truthy v \<and> nd v = Inr (Some t) \<longrightarrow>
      formatSample nd f d = Inr ((ownMembers d)(''timestamp'' \<mapsto> JStr (f t)))) \<and>
   (timestampOf d = Inr (Some v) \<and> truthy v \<and> nd v = Inl TypeError \<longrightarrow>
      formatSample nd f d = Inl TypeError) \<and>
   (formatSample nd f d = Inr r \<longrightarrow> (\<forall>k. k \<noteq> ''timestamp'' \<longrightarrow> r k = ownMembers d k)) \<and>
   (list_all2 (\<lambda>x y. formatSample nd f x = Inr y) ds rs \<longrightarrow>
      fetchChartData nd f (OkJson (JArr ds)) q = rs) \<and>
   ((\<exists>x \<in> set ds. formatSample nd f x = Inl TypeError) \<longrightarrow>
      fetchChartData nd f (OkJson (JArr ds)) q = q)"
proof -
  have null: "formatSample nd f d = Inl TypeError" if "d = JNull"
    using that by (simp add: formatSample_def)
  have unknown: "formatSample nd f d = Inr ((ownMembers d)(''timestamp'' \<mapsto> JStr ''Unknown Time''))"
    if "timestampOf d = Inr None \<or> (\<exists>u. timestampOf d = Inr (Some u) \<and> \<not> truthy u)"
    using that by (auto simp: formatSample_def)
  have invalid: "formatSample nd f d = Inr ((ownMembers d)(''timestamp'' \<mapsto> JStr ''Invalid Time''))"
    if "timestampOf d = Inr (Some v)" "truthy v" "nd v = Inr None"
    using that by (simp add: formatSample_def)
  have valid: "formatSample nd f d = Inr ((ownMembers d)(''timestamp'' \<mapsto> JStr (f t)))"
    if "timestampOf d = Inr (Some v)" "truthy v" "nd v = Inr (Some t)"
    using that by (simp add: formatSample_def)
  have thrown: "formatSample nd f d = Inl TypeError"
    if "timestampOf d = Inr (Some v)" "truthy v" "nd v = Inl TypeError"
    using that by (simp add: formatSample_def)
  have stored: "fetchChartData nd f (OkJson (JArr ds)) q = rs"
    if "list_all2 (\<lambda>x y. formatSample nd f x = Inr y) ds rs"
    using that by (simp add: fetchChartData_def formattedData_all)
  have dropped: "fetchChartData nd f (OkJson (JArr ds)) q = q"
    if "\<exists>x \<in> set ds. formatSample nd f x = Inl TypeError"
    using that by (auto simp: fetchChartData_def dest: formattedData_Inl)
  from null unknown invalid valid thrown stored dropped show ?thesis
    using timestampOf_total [of d] formatSample_other [of nd f d r] by blast
qed

lemmas element_defs =
  noTimestamp_def badTimestamp_def goodTimestamp_def throwingTimestamp_def emptyTimestamp_def

text \<open>
  Each case at a concrete element: \<^verbatim>\<open>null\<close>, an element without timestamp, the text
  \<^verbatim>\<open>"soon"\<close>, an ISO time stamp beside a member \<^verbatim>\<open>LSF_est\<close> that is kept, an object
  timestamp with an own \<^verbatim>\<open>toString\<close>; an answer that is stored and one that is dropped.
\<close>

theorem formatSample_cases_witness:
  "formatSample sampleDate sampleFormat JNull = Inl TypeError \<and>
   timestampOf noTimestamp = Inr None \<and>
   formatSample sampleDate sampleFormat noTimestamp
     = Inr ((ownMembers noTimestamp)(''timestamp'' \<mapsto> JStr ''Unknown Time'')) \<and>
   timestampOf badTimestamp = Inr (Some (JStr ''soon'')) \<and>
   sampleDate (JStr ''soon'') = Inr None \<and>
   formatSample sampleDate sampleFormat badTimestamp
     = Inr ((ownMembers badTimestamp)(''timestamp'' \<mapsto> JStr ''Invalid Time'')) \<and>
   timestampOf goodTimestamp = Inr (Some (JStr ''2024-05-01T12:34:56Z'')) \<and>
   sampleDate (JStr ''2024-05-01T12:34:56Z'') = Inr (Some 1714566896000) \<and>
   formatSample sampleDate sampleFormat goodTimestamp
     = Inr ((ownMembers goodTimestamp)(''timestamp'' \<mapsto> JStr ''12:34:56'')) \<and>
   ownMembers goodTimestamp ''LSF_est'' = Some (JNum 1) \<and>
   sampleDate (JObj [(''toString'', JNum 1)]) = Inl TypeError \<and>
   formatSample sampleDate sampleFormat throwingTimestamp = Inl TypeError \<and>
   fetchChartData sampleDate sampleFormat (OkJson (JArr [noTimestamp, goodTimestamp])) oldData
     = [(ownMembers noTimestamp)(''timestamp'' \<mapsto> JStr ''Unknown Time''),
        (ownMembers goodTimestamp)(''timestamp'' \<mapsto> JStr ''12:34:56'')] \<and>
   fetchChartData sampleDate sampleFormat (OkJson (JArr [goodTimestamp, JNull])) oldData = oldData"
proof -
  have none: "timestampOf noTimestamp = Inr None"
    by (simp add: element_defs)
  have bad: "timestampOf badTimestamp = Inr (Some (JStr ''soon'')) \<and> truthy (JStr ''soon'') \<and>
      sampleDate (JStr ''soon'') = Inr None"
    by (simp add: element_defs)
  have good: "timestampOf goodTimestamp = Inr (Some (JStr ''2024-05-01T12:34:56Z'')) \<and>
      truthy (JStr ''2024-05-01T12:34:56Z'') \<and>
      sampleDate (JStr ''2024-05-01T12:34:56Z'') = Inr (Some 1714566896000)"
    by (simp add: element_defs)
  have fmt: "sampleFormat 1714566896000 = ''12:34:56''"
    by (simp add: sampleFormat_def)
  have kept: "ownMembers goodTimestamp ''LSF_est'' = Some (JNum 1)"
    by (simp add: element_defs)
  have throwing: "timestampOf throwingTimestamp = Inr (Some (JObj [(''toString'', JNum 1)])) \<and>
      truthy (JObj [(''toString'', JNum 1)]) \<and>
      sampleDate (JObj [(''toString'', JNum 1)]) = Inl TypeError"
    by (simp add: element_defs)
  note c = formatSample_cases [where nd = sampleDate and f = sampleFormat]
  from c [where d = JNull] have r1: "formatSample sampleDate sampleFormat JNull = Inl TypeError"
    by blast
  from c [where d = noTimestamp] none
  have r2: "formatSample sampleDate sampleFormat noTimestamp
      = Inr ((ownMembers noTimestamp)(''timestamp'' \<mapsto> JStr ''Unknown Time''))"
    by blast
  from c [where d = badTimestamp and v = "JStr ''soon''"] bad
  have r3: "formatSample sampleDate sampleFormat badTimestamp
      = Inr ((ownMembers badTimestamp)(''timestamp'' \<mapsto> JStr ''Invalid Time''))"
    by blast
  from c [where d = goodTimestamp and v = "JStr ''2024-05-01T12:34:56Z''" and t = 1714566896000] good
  have "formatSample sampleDate sampleFormat goodTimestamp
      = Inr ((ownMembers goodTimestamp)(''timestamp'' \<mapsto> JStr (sampleFormat 1714566896000)))"
    by blast
  with fmt have r4: "formatSample sampleDate sampleFormat goodTimestamp
      = Inr ((ownMembers goodTimestamp)(''timestamp'' \<mapsto> JStr ''12:34:56''))"
    by (simp only:)
  from c [where d = throwingTimestamp and v = "JObj [(''toString'', JNum 1)]"] throwing
  have r5: "formatSample sampleDate sampleFormat throwingTimestamp = Inl TypeError"
    by blast
  from r2 r4 have "list_all2 (\<lambda>x y. formatSample sampleDate sampleFormat x = Inr y)
      [noTimestamp, goodTimestamp]
      [(ownMembers noTimestamp)(''timestamp'' \<mapsto> JStr ''Unknown Time''),
       (ownMembers goodTimestamp)(''timestamp'' \<mapsto> JStr ''12:34:56'')]"
    by simp
  with c [where ds = "[noTimestamp, goodTimestamp]" and q = oldData]
  have r6: "fetchChartData sampleDate sampleFormat (OkJson (JArr [noTimestamp, goodTimestamp])) oldData
      = [(ownMembers noTimestamp)(''timestamp'' \<mapsto> JStr ''Unknown Time''),
         (ownMembers goodTimestamp)(''timestamp'' \<mapsto> JStr ''12:34:56'')]"
    by blast
  from r1 have "\<exists>x \<in> set [goodTimestamp, JNull]. formatSample sampleDate sampleFormat x = Inl TypeError"
    by simp
  with c [where ds = "[goodTimestamp, JNull]" and q = oldData]
  have r7: "fetchChartData sampleDate sampleFormat (OkJson (JArr [goodTimestamp, JNull])) oldData = oldData"
    by blast
  from none bad good kept throwing r1 r2 r3 r4 r5 r6 r7 show ?thesis
    by blast
qed

text \<open>
  Claim C10 as stated fails twice. At the element \<^verbatim>\<open>{timestamp: ""}\<close> the empty string is
  no date, yet the formatter answers "Unknown Time", not "Invalid Time", because
  \<^verbatim>\<open>!d.timestamp\<close> holds for it and \<^verbatim>\<open>new Date\<close> is never reached. And the formatter is
  not total: on a \<^verbatim>\<open>null\<close> element, and on a timestamp that makes \<^verbatim>\<open>new Date\<close> throw, it
  throws, and the answer that holds such an element is dropped as a whole.
\<close>

theorem formatSample_not_as_claimed:
  "timestampOf emptyTimestamp = Inr (Some (JStr '''')) \<and>
   sampleDate (JStr '''') = Inr None \<and>
   formatSample sampleDate sampleFormat emptyTimestamp
     = Inr [''timestamp'' \<mapsto> JStr ''Unknown Time''] \<and>
   formatSample sampleDate sampleFormat emptyTimestamp
     \<noteq> Inr [''timestamp'' \<mapsto> JStr ''Invalid Time''] \<and>
   formatSample sampleDate sampleFormat JNull = Inl TypeError \<and>
   formatSample sampleDate sampleFormat throwingTimestamp = Inl TypeError \<and>
   fetchChartData sampleDate sampleFormat (OkJson (JArr [goodTimestamp, JNull])) oldData = oldData"
proof -
  have differ: "[''timestamp'' \<mapsto> JStr ''Unknown Time''] ''timestamp''
      \<noteq> [''timestamp'' \<mapsto> JStr ''Invalid Time''] ''timestamp''"
    by simp
  then have "[''timestamp'' \<mapsto> JStr ''Unknown Time''] \<noteq> [''timestamp'' \<mapsto> JStr ''Invalid Time'']"
    by metis
  then show ?thesis
    by (simp add: formatSample_def fetchChartData_def element_defs)
qed

section \<open>Properties of the page's plan workflow\<close>

lemmas handler_defs =
  proposePlan_def simulatePlan_def applyPlan_def injectDisturbance_def send_def busy_def

lemmas run_defs = simulatedRun_def initial_def handler_defs sends_def

lemma sentLog_step: "sentLog (step e w) = sentLog w @ sends e w"
  by (cases e) (auto simp: sends_def handler_defs Let_def split: option.splits)


lemma sends_propose:
  "PlanPropose f \<in> set (sends e w) \<Longrightarrow>
     f \<and> e = ClickPropose \<and> proposedPlan (step e w) = None \<and> simulationResults (step e w) = None"
  by (cases e) (auto simp: sends_def handler_defs Let_def split: option.splits if_splits)





lemma forced_run:
  "\<forall>f. PlanPropose f \<in> set (sentLog w) \<longrightarrow> f \<Longrightarrow>
   PlanPropose f \<in> set (sentLog (run es w)) \<Longrightarrow> f"
proof (induction es arbitrary: w)
  case Nil
  then show ?case by auto
next
  case (Cons e es)
  have "\<forall>f. PlanPropose f \<in> set (sentLog (step e w)) \<longrightarrow> f"
    using Cons.prems(1) sends_propose [of _ e w] by (auto simp: sentLog_step)
  with Cons.IH [of "step e w"] Cons.prems(2) show ?case by simp
qed




text \<open>
  \<^verbatim>\<open>isLoading\<close> being \<^verbatim>\<open>false\<close> does not mean that no request is in flight: of two
  applies started from the dialog, the first answer clears \<^verbatim>\<open>isLoading\<close>, and the
  trigger opens the dialog again while the second apply is still in flight.
\<close>

lemma dialog_opens_during_apply:
  "dialogOpen (run (simulatedRun @ [ClickApply, ClickConfirm, ClickConfirm,
       ApplyDone demoPlan False, CloseDialog, ClickApply]) initial) \<and>
   isLoading (run (simulatedRun @ [ClickApply, ClickConfirm, ClickConfirm,
       ApplyDone demoPlan False, CloseDialog]) initial) = NotLoading \<and>
   inflight (run (simulatedRun @ [ClickApply, ClickConfirm, ClickConfirm,
       ApplyDone demoPlan False, CloseDialog]) initial) = [PlanApply demoPlan]"
  by (simp add: run_defs)

text \<open>
  Pressed while \<^verbatim>\<open>isLoading\<close> is set, the dialog's button can even send a Plan that
  was never simulated: two applies are started at once, the first answer re-enables the
  page while the second is in flight, a simulate and then a propose are started, and the
  old simulation's answer arrives after the new Plan.
\<close>

lemma apply_without_simulation:
  "sentLog (run (simulatedRun @ [ClickApply, ClickConfirm, ClickConfirm, ApplyDone demoPlan False,
       CloseDialog, ClickSimulate, ApplyDone demoPlan False, ClickPropose,
       ProposeDone (Some otherPlan), SimulateDone demoPlan (Some demoResult),
       ClickApply, ClickConfirm]) initial)
     = [PlanPropose True, PlanSimulate demoPlan, PlanApply demoPlan, PlanApply demoPlan,
        PlanSimulate demoPlan, PlanPropose True, PlanApply otherPlan] \<and>
   simulatedLog (run (simulatedRun @ [ClickApply, ClickConfirm, ClickConfirm, ApplyDone demoPlan False,
       CloseDialog, ClickSimulate, ApplyDone demoPlan False, ClickPropose,
       ProposeDone (Some otherPlan), SimulateDone demoPlan (Some demoResult),
       ClickApply, ClickConfirm]) initial) = [demoPlan, demoPlan]"
  by (simp add: run_defs)

text \<open>
  Claim C9. Every propose request the page sends is \<^verbatim>\<open>POST /plan/propose?force=true\<close>, sent by
  \<^verbatim>\<open>proposePlan\<close> with the stored Plan and SimulationResult reset. Hence, at the propose
  endpoint as the specification describes it, such a request never fails with
  \<open>NoIssueDetected\<close>, and whatever Plan was active before is gone afterwards: the
  orchestrator is left with the new clamped Plan, or idle when the oracle failed.
\<close>

theorem propose_forced:
  "(PlanPropose f \<in> set (sends e w) \<longrightarrow>
      f \<and> e = ClickPropose \<and> proposedPlan (step e w) = None \<and> simulationResults (step e w) = None) \<and>
   (PlanPropose f \<in> set (sentLog (run es initial)) \<longrightarrow>
      f \<and> fst (plan_propose f cs ctl oracle flow) \<noteq> Inl NoIssueDetected \<and>
      snd (plan_propose f cs ctl oracle flow) =
        (case oracle of Inl x \<Rightarrow> Idle | Inr p \<Rightarrow> PlanProposed (clamp cs ctl p)))"
proof -
  have forced: f if "PlanPropose f \<in> set (sentLog (run es initial))"
    using _ that by (rule forced_run) (simp add: initial_def)
  have gate: "fst (plan_propose True cs ctl oracle flow) \<noteq> Inl NoIssueDetected"
    by (simp add: plan_propose_def split: sum.splits)
  have fresh: "snd (plan_propose True cs ctl oracle flow) =
      (case oracle of Inl x \<Rightarrow> Idle | Inr p \<Rightarrow> PlanProposed (clamp cs ctl p))"
    by (simp add: plan_propose_def split: sum.splits)
  from forced gate fresh show ?thesis
    using sends_propose [of f e w] by auto
qed

text \<open>
  At a concrete run: pressing Propose while a Plan and a SimulationResult are stored
  resets both and sends the forced request, and the endpoint replaces the active Plan.
\<close>

theorem propose_forced_witness:
  "PlanPropose True \<in> set (sends ClickPropose (run simulatedRun initial)) \<and>
   proposedPlan (step ClickPropose (run simulatedRun initial)) = None \<and>
   simulationResults (step ClickPropose (run simulatedRun initial)) = None \<and>
   PlanPropose True \<in> set (sentLog (run simulatedRun initial)) \<and>
   fst (plan_propose True demoLimits inRange (Inr wildPlan) (PlanProposed demoPlan))
     \<noteq> Inl NoIssueDetected \<and>
   snd (plan_propose True demoLimits inRange (Inr wildPlan) (PlanProposed demoPlan))
     = PlanProposed (clamp demoLimits inRange wildPlan)"
proof -
  have a: "PlanPropose True \<in> set (sends ClickPropose (run simulatedRun initial))"
    by (simp add: run_defs)
  have b: "PlanPropose True \<in> set (sentLog (run simulatedRun initial))"
    by (simp add: run_defs)
  from a b show ?thesis
    using propose_forced [of True ClickPropose "run simulatedRun initial" simulatedRun
        demoLimits inRange "Inr wildPlan" "PlanProposed demoPlan"]
    by simp
qed

end
